theory Spec2Isabelle
  imports Complex_Main "HOL-Library.Multiset"
begin

section \<open>Data model\<close>

text \<open>
  The interface \<open>Insight\<close> of \<open>types.ts\<close>. The optional \<open>metadata\<close> object is a value of
  an arbitrary type \<open>'m\<close> (a JavaScript object, hence always truthy when present);
  timestamps are the integers \<open>Date.now()\<close> returns.
\<close>

record 'm Insight =
  insight_id :: string
  content :: string
  insight_context :: string
  metadata :: "'m option"
  created_at :: int
  updated_at :: int

text \<open>The interface \<open>SearchResult\<close>: the page that \<open>list\<close> and \<open>search\<close> return.\<close>

record 'm SearchResult =
  results :: "'m Insight list"
  total :: nat
  hasMore :: bool

text \<open>
  A row of the table \<open>insights\<close> created by \<open>initSchema\<close>: the implicit \<open>rowid\<close> of SQLite and
  the six declared columns. \<open>metadata TEXT\<close> is nullable and holds the JSON text.
\<close>

record row =
  rowid :: nat
  col_id :: string
  col_content :: string
  col_context :: string
  col_metadata :: "string option"
  col_created_at :: int
  col_updated_at :: int

text \<open>
  The database: the rows of \<open>insights\<close> in rowid order, and the full-text index
  \<open>insights_fts\<close>. The index is declared with \<open>content='insights'\<close>, an external-content
  FTS5 table: it stores no column values. It holds the terms indexed under each rowid
  (\<open>[]\<close> where nothing is indexed), and the totals FTS5 keeps for ranking: the number of
  tokens indexed in each of its two columns and the number of rows indexed.
\<close>

record 't db =
  insights :: "row list"
  insights_fts :: "nat \<Rightarrow> 't list"
  fts_content_size :: nat
  fts_metadata_size :: nat
  fts_row_count :: nat

datatype error = SqliteError string | Error string

text \<open>
  What the store takes from its environment: \<open>JSON.stringify\<close> and \<open>JSON.parse\<close> of the
  JavaScript runtime and the FTS5 engine of SQLite, namely its tokenizer, its query parser
  (\<open>None\<close> when the engine rejects the text of a \<open>MATCH\<close>), the evaluation of a parsed query
  on the terms indexed under a rowid, and the rank used by \<open>ORDER BY rank\<close>.
  \<open>JSON.parse\<close> is a total function here: the store parses only the texts it has
  written with \<open>JSON.stringify\<close>.
\<close>

record ('m, 't, 'q, 'r) env =
  JSON_stringify :: "'m \<Rightarrow> string"
  JSON_parse :: "string \<Rightarrow> 'm"
  fts5_tokenize :: "string \<Rightarrow> 't list"
  fts5_parse :: "string \<Rightarrow> 'q option"
  fts5_match :: "'q \<Rightarrow> 't list \<Rightarrow> bool"
  fts5_rank :: "'q \<Rightarrow> 't list \<Rightarrow> 'r"

text \<open>The database after the constructor has run \<open>initSchema\<close> on a new file.\<close>

definition empty_db :: "'t db" where
  "empty_db =
     \<lparr>insights = [], insights_fts = (\<lambda>_. []), fts_content_size = 0, fts_metadata_size = 0,
      fts_row_count = 0\<rparr>"

section \<open>SQL fragments\<close>

text \<open>JavaScript truthiness of an optional string: defined and not empty.\<close>

fun truthy :: "string option \<Rightarrow> bool" where
  "truthy None = False"
| "truthy (Some s) = (s \<noteq> [])"

text \<open>
  The rowid SQLite gives a new row of a table without \<open>AUTOINCREMENT\<close>: one more than the
  largest rowid in the table, 1 in an empty table.
\<close>

definition next_rowid :: "row list \<Rightarrow> nat" where
  "next_rowid rs = fold max (map rowid rs) 0 + 1"

text \<open>
  \<open>if (context) { query += ' WHERE context = ?' }\<close>: the filter is added for a truthy
  context only.
\<close>

definition where_context :: "string option \<Rightarrow> row list \<Rightarrow> row list" where
  "where_context ctx rs =
     (if truthy ctx then filter (\<lambda>r. Some (col_context r) = ctx) rs else rs)"

text \<open>
  \<open>ORDER BY created_at DESC\<close>. SQL leaves the order of rows with equal keys to the
  engine; the model keeps them in scan order.
\<close>

definition order_by_created_at_desc :: "row list \<Rightarrow> row list" where
  "order_by_created_at_desc rs = sort_key (\<lambda>r. - col_created_at r) rs"

text \<open>
  \<open>limit\<close> and \<open>offset\<close> are JavaScript numbers, here reals, bound to
  \<open>LIMIT ? OFFSET ?\<close> as doubles. SQLite takes such an operand only if it is an integer
  strictly between \<open>-2\<^sup>6\<^sup>3\<close> and \<open>2\<^sup>6\<^sup>3\<close>; for any other number the statement fails with
  \<open>datatype mismatch\<close> (\<open>SQLITE_MISMATCH\<close>). \<open>NaN\<close> and the infinities, which SQLite
  refuses in the same way, are not among the reals.
\<close>

definition sqlite_integer :: "real \<Rightarrow> int option" where
  "sqlite_integer x =
     (if of_int \<lfloor>x\<rfloor> = x \<and> - (2 ^ 63) < x \<and> x < 2 ^ 63 then Some \<lfloor>x\<rfloor> else None)"

text \<open>
  The rows \<open>LIMIT l OFFSET n\<close> lets through, for integers: a negative offset skips
  nothing and a negative limit sets no upper bound.
\<close>

definition window :: "int \<Rightarrow> int \<Rightarrow> 'a list \<Rightarrow> 'a list" where
  "window l n xs = (let ys = drop (nat n) xs in if l < 0 then ys else take (nat l) ys)"

definition limit_offset :: "real \<Rightarrow> real \<Rightarrow> 'a list \<Rightarrow> error + 'a list" where
  "limit_offset limit offset xs =
     (case sqlite_integer limit of
        None \<Rightarrow> Inl (SqliteError ''SQLITE_MISMATCH'')
      | Some l \<Rightarrow>
          (case sqlite_integer offset of
             None \<Rightarrow> Inl (SqliteError ''SQLITE_MISMATCH'')
           | Some n \<Rightarrow> Inr (window l n xs)))"

subsection \<open>The external-content index and its triggers\<close>

text \<open>The tokens of an indexed column value; a NULL has none.\<close>

definition column_tokens :: "('m, 't, 'q, 'r) env \<Rightarrow> string option \<Rightarrow> 't list" where
  "column_tokens e v = (case v of None \<Rightarrow> [] | Some t \<Rightarrow> fts5_tokenize e t)"

definition fts_terms :: "('m, 't, 'q, 'r) env \<Rightarrow> string \<Rightarrow> string option \<Rightarrow> 't list" where
  "fts_terms e c m = fts5_tokenize e c @ column_tokens e m"

text \<open>
  \<open>INSERT INTO insights_fts(rowid, content, metadata) VALUES (...)\<close> adds the terms of the
  given values to those indexed under the rowid and their numbers to the totals.
\<close>

definition fts_insert ::
  "('m, 't, 'q, 'r) env \<Rightarrow> nat \<Rightarrow> string \<Rightarrow> string option \<Rightarrow> 't db \<Rightarrow> 't db" where
  "fts_insert e r c m d =
     d\<lparr>insights_fts := (insights_fts d)(r := insights_fts d r @ fts_terms e c m),
       fts_content_size := fts_content_size d + length (fts5_tokenize e c),
       fts_metadata_size := fts_metadata_size d + length (column_tokens e m),
       fts_row_count := fts_row_count d + 1\<rparr>"

text \<open>
  How FTS5 takes a row out of the index, given the column values \<open>x\<close> it believes were
  indexed: it removes their terms from under the rowid and their numbers from the totals. If
  a column has more tokens than the total of that column, or no row is counted, the index
  cannot be what FTS5 wrote, and the statement fails with \<open>SQLITE_CORRUPT_VTAB\<close>.
\<close>

definition fts_delete_row :: "('m, 't, 'q, 'r) env \<Rightarrow> row \<Rightarrow> 't db \<Rightarrow> error + 't db" where
  "fts_delete_row e x d =
     (let cs = fts5_tokenize e (col_content x); ms = column_tokens e (col_metadata x) in
      if fts_content_size d < length cs \<or> fts_metadata_size d < length ms \<or> fts_row_count d < 1
      then Inl (SqliteError ''SQLITE_CORRUPT_VTAB'')
      else Inr (d\<lparr>insights_fts :=
                     (insights_fts d)
                       (rowid x := filter (\<lambda>t. t \<notin> set (cs @ ms)) (insights_fts d (rowid x))),
                   fts_content_size := fts_content_size d - length cs,
                   fts_metadata_size := fts_metadata_size d - length ms,
                   fts_row_count := fts_row_count d - 1\<rparr>))"

text \<open>
  \<open>DELETE FROM insights_fts WHERE rowid = ?\<close> and \<open>UPDATE insights_fts SET ... WHERE
  rowid = ?\<close> are written against the FTS table itself (not with its \<open>'delete'\<close> command),
  so on an external-content table the engine finds the row to change, and the values it
  takes out of the index, by reading the content table \<open>insights\<close> as it is when the
  statement runs. If the content table has no such row the statement changes nothing. The
  \<open>UPDATE\<close> takes the row out and inserts the new values.
\<close>

definition fts_delete_where_rowid ::
  "('m, 't, 'q, 'r) env \<Rightarrow> nat \<Rightarrow> 't db \<Rightarrow> error + 't db" where
  "fts_delete_where_rowid e r d =
     (case find (\<lambda>x. rowid x = r) (insights d) of
        None \<Rightarrow> Inr d
      | Some x \<Rightarrow> fts_delete_row e x d)"

definition fts_update_where_rowid ::
  "('m, 't, 'q, 'r) env \<Rightarrow> nat \<Rightarrow> string \<Rightarrow> string option \<Rightarrow> 't db \<Rightarrow> error + 't db" where
  "fts_update_where_rowid e r c m d =
     (case find (\<lambda>x. rowid x = r) (insights d) of
        None \<Rightarrow> Inr d
      | Some x \<Rightarrow>
          (case fts_delete_row e x d of
             Inl err \<Rightarrow> Inl err
           | Inr d' \<Rightarrow> Inr (fts_insert e r c m d')))"

text \<open>
  The three triggers of \<open>initSchema\<close>. Each is an \<open>AFTER\<close> trigger: it runs on the table
  as the triggering statement has left it, once for each row the statement changed.
\<close>

definition insights_ai :: "('m, 't, 'q, 'r) env \<Rightarrow> row \<Rightarrow> 't db \<Rightarrow> 't db" where
  "insights_ai e new d = fts_insert e (rowid new) (col_content new) (col_metadata new) d"

definition insights_ad :: "('m, 't, 'q, 'r) env \<Rightarrow> row \<Rightarrow> 't db \<Rightarrow> error + 't db" where
  "insights_ad e old d = fts_delete_where_rowid e (rowid old) d"

definition insights_au :: "('m, 't, 'q, 'r) env \<Rightarrow> row \<Rightarrow> 't db \<Rightarrow> error + 't db" where
  "insights_au e new d =
     fts_update_where_rowid e (rowid new) (col_content new) (col_metadata new) d"

fun for_each_row ::
  "(row \<Rightarrow> 't db \<Rightarrow> error + 't db) \<Rightarrow> row list \<Rightarrow> 't db \<Rightarrow> error + 't db" where
  "for_each_row trigger [] d = Inr d"
| "for_each_row trigger (x # xs) d =
     (case trigger x d of
        Inl err \<Rightarrow> Inl err
      | Inr d' \<Rightarrow> for_each_row trigger xs d')"

section \<open>The store: class InsightsDatabase\<close>

text \<open>
  \<open>save\<close>: \<open>randomUUID()\<close> and \<open>Date.now()\<close> are the arguments \<open>uuid\<close> and \<open>now\<close>. The
  \<open>INSERT\<close> fails on the primary key when the id is already in the table. A statement
  that fails, in itself or in its trigger, leaves the database as it was: the caller keeps
  the database it had.
\<close>

definition save ::
  "('m, 't, 'q, 'r) env \<Rightarrow> 't db \<Rightarrow> string \<Rightarrow> int \<Rightarrow> string \<Rightarrow> string \<Rightarrow> 'm option \<Rightarrow>
     error + ('m Insight \<times> 't db)" where
  "save e d uuid now c ctx m =
     (let metadataJson = map_option (JSON_stringify e) m in
      if uuid \<in> set (map col_id (insights d)) then Inl (SqliteError ''SQLITE_CONSTRAINT_PRIMARYKEY'')
      else
        let new = \<lparr>rowid = next_rowid (insights d), col_id = uuid, col_content = c,
                   col_context = ctx, col_metadata = metadataJson,
                   col_created_at = now, col_updated_at = now\<rparr>;
            d1 = d\<lparr>insights := insights d @ [new]\<rparr>
        in Inr (\<lparr>insight_id = uuid, content = c, insight_context = ctx, metadata = m,
                  created_at = now, updated_at = now\<rparr>,
                insights_ai e new d1))"

definition rowToInsight :: "('m, 't, 'q, 'r) env \<Rightarrow> row \<Rightarrow> 'm Insight" where
  "rowToInsight e r =
     \<lparr>insight_id = col_id r, content = col_content r, insight_context = col_context r,
      metadata = (case col_metadata r of
                    None \<Rightarrow> None
                  | Some t \<Rightarrow> if t \<noteq> [] then Some (JSON_parse e t) else None),
      created_at = col_created_at r, updated_at = col_updated_at r\<rparr>"

definition get :: "('m, 't, 'q, 'r) env \<Rightarrow> 't db \<Rightarrow> string \<Rightarrow> 'm Insight option" where
  "get e d i = map_option (rowToInsight e) (find (\<lambda>r. col_id r = i) (insights d))"

text \<open>The argument \<open>updates\<close> of \<open>update\<close>: both fields are optional.\<close>

record 'm updates =
  upd_content :: "string option"
  upd_metadata :: "'m option"

text \<open>
  \<open>update\<close>: the \<open>UPDATE\<close> of the row and then the trigger \<open>insights_au\<close>; when the
  trigger fails, \<open>stmt.run\<close> throws and the row is as it was.
\<close>

definition update ::
  "('m, 't, 'q, 'r) env \<Rightarrow> 't db \<Rightarrow> int \<Rightarrow> string \<Rightarrow> 'm updates \<Rightarrow>
     error + ('m Insight option \<times> 't db)" where
  "update e d now i u =
     (case get e d i of
        None \<Rightarrow> Inr (None, d)
      | Some existing \<Rightarrow>
          let c = (case upd_content u of Some x \<Rightarrow> x | None \<Rightarrow> content existing);
              m = (case upd_metadata u of Some x \<Rightarrow> Some x | None \<Rightarrow> metadata existing);
              metadataJson = map_option (JSON_stringify e) m;
              d1 = d\<lparr>insights :=
                      map (\<lambda>r. if col_id r = i
                                then r\<lparr>col_content := c, col_metadata := metadataJson,
                                       col_updated_at := now\<rparr>
                                else r) (insights d)\<rparr>
          in case for_each_row (insights_au e) (filter (\<lambda>r. col_id r = i) (insights d1)) d1 of
               Inl err \<Rightarrow> Inl err
             | Inr d2 \<Rightarrow> Inr (Some (existing\<lparr>content := c, metadata := m, updated_at := now\<rparr>), d2))"

text \<open>\<open>delete\<close> returns \<open>result.changes > 0\<close>.\<close>

definition delete :: "('m, 't, 'q, 'r) env \<Rightarrow> 't db \<Rightarrow> string \<Rightarrow> error + (bool \<times> 't db)" where
  "delete e d i =
     (let old = filter (\<lambda>r. col_id r = i) (insights d);
          d1 = d\<lparr>insights := filter (\<lambda>r. col_id r \<noteq> i) (insights d)\<rparr>
      in case for_each_row (insights_ad e) old d1 of
           Inl err \<Rightarrow> Inl err
         | Inr d2 \<Rightarrow> Inr (old \<noteq> [], d2))"

text \<open>
  \<open>list\<close>: the count query, then the page query, which throws when SQLite does not take
  the limit or the offset.
\<close>

definition list ::
  "('m, 't, 'q, 'r) env \<Rightarrow> 't db \<Rightarrow> string option \<Rightarrow> real \<Rightarrow> real \<Rightarrow> error + 'm SearchResult" where
  "list e d ctx limit offset =
     (let matching = where_context ctx (insights d) in
      case limit_offset limit offset (order_by_created_at_desc matching) of
        Inl err \<Rightarrow> Inl err
      | Inr rows \<Rightarrow>
          let res = map (rowToInsight e) rows
          in Inr \<lparr>results = res, total = length matching,
                  hasMore = (offset + real (length res) < real (length matching))\<rparr>)"

text \<open>
  \<open>search\<close>: the join of the index with the table on the rowid, restricted to the rowids
  whose indexed terms the query matches (a rowid with no indexed term is in no posting list
  of the index, so \<open>MATCH\<close> does not produce it). The count query runs first; both
  queries hand the same text to \<open>MATCH\<close>, and a text the engine rejects makes the count
  query throw. Rows of equal rank stay in scan order.
\<close>

definition fts_join :: "('m, 't, 'q, 'r) env \<Rightarrow> 't db \<Rightarrow> 'q \<Rightarrow> row list" where
  "fts_join e d q =
     filter (\<lambda>r. insights_fts d (rowid r) \<noteq> [] \<and> fts5_match e q (insights_fts d (rowid r)))
       (insights d)"

definition search ::
  "('m, 't, 'q, 'r::linorder) env \<Rightarrow> 't db \<Rightarrow> string \<Rightarrow> string option \<Rightarrow> real \<Rightarrow> real \<Rightarrow>
     error + 'm SearchResult" where
  "search e d query ctx limit offset =
     (case fts5_parse e query of
        None \<Rightarrow> Inl (SqliteError ''SQLITE_ERROR'')
      | Some q \<Rightarrow>
          let matching = where_context ctx (fts_join e d q) in
          case limit_offset limit offset
                 (sort_key (\<lambda>r. fts5_rank e q (insights_fts d (rowid r))) matching) of
            Inl err \<Rightarrow> Inl err
          | Inr rows \<Rightarrow>
              let res = map (rowToInsight e) rows
              in Inr \<lparr>results = res, total = length matching,
                      hasMore = (offset + real (length res) < real (length matching))\<rparr>)"

section \<open>The adapter: createInsightsServer\<close>

datatype mode = Stdio | Http

text \<open>
  \<open>getContext\<close>, the helper of \<open>server.ts\<close>; \<open>process.cwd()\<close> is the argument \<open>cwd\<close>.
\<close>

definition getContext :: "mode \<Rightarrow> string \<Rightarrow> string option \<Rightarrow> error + string" where
  "getContext md cwd providedContext =
     (if md = Http \<and> \<not> truthy providedContext
      then Inl (Error ''context parameter is required in HTTP mode'')
      else Inr (case providedContext of
                  None \<Rightarrow> cwd
                | Some c \<Rightarrow> if c \<noteq> [] then c else cwd))"

text \<open>
  The arguments of the six registered tools, after schema validation: an id is a UUID, a
  limit is between 1 and 100, an offset is at least 0.
\<close>

datatype 'm tool_call =
    Save_insight string "string option" "'m option"
  | Search_insights string "string option" "real option" "real option"
  | List_insights "string option" "real option" "real option"
  | Get_insight string
  | Update_insight string "string option" "'m option"
  | Delete_insight string

text \<open>The call on the store that a tool handler makes.\<close>

datatype 'm store_call =
    Db_save string string "'m option"
  | Db_search string "string option" real real
  | Db_list "string option" real real
  | Db_get string
  | Db_update string "'m updates"
  | Db_delete string

text \<open>
  The first half of each tool handler: either it throws before the store is reached, or it
  makes exactly one call on the store. \<open>save-insight\<close> resolves its context with
  \<open>getContext\<close>; \<open>search-insights\<close> and \<open>list-insights\<close> evaluate
  \<open>context ? getContext(context) : undefined\<close>; the other three have no context argument.
\<close>

fun handler :: "mode \<Rightarrow> string \<Rightarrow> 'm tool_call \<Rightarrow> error + 'm store_call" where
  "handler md cwd (Save_insight c ctx m) =
     (case getContext md cwd ctx of
        Inl err \<Rightarrow> Inl err
      | Inr resolvedContext \<Rightarrow> Inr (Db_save c resolvedContext m))"
| "handler md cwd (Search_insights q ctx limit offset) =
     (case (if truthy ctx then map_sum id Some (getContext md cwd ctx) else Inr None) of
        Inl err \<Rightarrow> Inl err
      | Inr resolvedContext \<Rightarrow>
          Inr (Db_search q resolvedContext (case limit of Some l \<Rightarrow> l | None \<Rightarrow> 20)
                 (case offset of Some n \<Rightarrow> n | None \<Rightarrow> 0)))"
| "handler md cwd (List_insights ctx limit offset) =
     (case (if truthy ctx then map_sum id Some (getContext md cwd ctx) else Inr None) of
        Inl err \<Rightarrow> Inl err
      | Inr resolvedContext \<Rightarrow>
          Inr (Db_list resolvedContext (case limit of Some l \<Rightarrow> l | None \<Rightarrow> 20)
                 (case offset of Some n \<Rightarrow> n | None \<Rightarrow> 0)))"
| "handler md cwd (Get_insight i) = Inr (Db_get i)"
| "handler md cwd (Update_insight i c m) = Inr (Db_update i \<lparr>upd_content = c, upd_metadata = m\<rparr>)"
| "handler md cwd (Delete_insight i) = Inr (Db_delete i)"

text \<open>The context argument of a tool call and the context handed to the store.\<close>

fun tool_context :: "'m tool_call \<Rightarrow> string option" where
  "tool_context (Save_insight c ctx m) = ctx"
| "tool_context (Search_insights q ctx limit offset) = ctx"
| "tool_context (List_insights ctx limit offset) = ctx"
| "tool_context (Get_insight i) = None"
| "tool_context (Update_insight i c m) = None"
| "tool_context (Delete_insight i) = None"

fun call_context :: "'m store_call \<Rightarrow> string option" where
  "call_context (Db_save c ctx m) = Some ctx"
| "call_context (Db_search q ctx limit offset) = ctx"
| "call_context (Db_list ctx limit offset) = ctx"
| "call_context (Db_get i) = None"
| "call_context (Db_update i u) = None"
| "call_context (Db_delete i) = None"

text \<open>
  The second half of each handler: the call on the store and the \<open>structuredContent\<close> it
  returns. A tool call is the two halves in sequence, so a handler that throws in its first
  half never reaches the store.
\<close>

datatype 'm tool_output =
    Out_save string int
  | Out_page "'m SearchResult"
  | Out_get "'m Insight option" bool
  | Out_update bool "'m Insight option"
  | Out_delete bool string

fun perform ::
  "('m, 't, 'q, 'r::linorder) env \<Rightarrow> 't db \<Rightarrow> string \<Rightarrow> int \<Rightarrow> 'm store_call \<Rightarrow>
     error + ('m tool_output \<times> 't db)" where
  "perform e d uuid now (Db_save c ctx m) =
     (case save e d uuid now c ctx m of
        Inl err \<Rightarrow> Inl err
      | Inr (insight, d') \<Rightarrow> Inr (Out_save (insight_id insight) (created_at insight), d'))"
| "perform e d uuid now (Db_search q ctx limit offset) =
     (case search e d q ctx limit offset of
        Inl err \<Rightarrow> Inl err
      | Inr output \<Rightarrow> Inr (Out_page output, d))"
| "perform e d uuid now (Db_list ctx limit offset) =
     (case list e d ctx limit offset of
        Inl err \<Rightarrow> Inl err
      | Inr output \<Rightarrow> Inr (Out_page output, d))"
| "perform e d uuid now (Db_get i) = Inr (Out_get (get e d i) (get e d i \<noteq> None), d)"
| "perform e d uuid now (Db_update i u) =
     (case update e d now i u of
        Inl err \<Rightarrow> Inl err
      | Inr (insight, d') \<Rightarrow> Inr (Out_update (insight \<noteq> None) insight, d'))"
| "perform e d uuid now (Db_delete i) =
     (case delete e d i of
        Inl err \<Rightarrow> Inl err
      | Inr (deleted, d') \<Rightarrow> Inr (Out_delete deleted i, d'))"

definition call_tool ::
  "('m, 't, 'q, 'r::linorder) env \<Rightarrow> mode \<Rightarrow> string \<Rightarrow> 't db \<Rightarrow> string \<Rightarrow> int \<Rightarrow> 'm tool_call \<Rightarrow>
     error + ('m tool_output \<times> 't db)" where
  "call_tool e md cwd d uuid now t =
     (case handler md cwd t of
        Inl err \<Rightarrow> Inl err
      | Inr call \<Rightarrow> perform e d uuid now call)"

section \<open>Sequences of mutations\<close>

text \<open>
  A mutation that throws leaves the database as it was.
\<close>

datatype 'm mutation =
    Create string int string string "'m option"
  | Update int string "'m updates"
  | Delete string

fun apply_mutation :: "('m, 't, 'q, 'r) env \<Rightarrow> 't db \<Rightarrow> 'm mutation \<Rightarrow> 't db" where
  "apply_mutation e d (Create uuid now c ctx m) =
     (case save e d uuid now c ctx m of Inl err \<Rightarrow> d | Inr (ins, d') \<Rightarrow> d')"
| "apply_mutation e d (Update now i u) =
     (case update e d now i u of Inl err \<Rightarrow> d | Inr (ins, d') \<Rightarrow> d')"
| "apply_mutation e d (Delete i) =
     (case delete e d i of Inl err \<Rightarrow> d | Inr (deleted, d') \<Rightarrow> d')"

definition run :: "('m, 't, 'q, 'r) env \<Rightarrow> 'm mutation list \<Rightarrow> 't db" where
  "run e ms = foldl (apply_mutation e) empty_db ms"

section \<open>A concrete environment\<close>

text \<open>
  An instance of the environment for evaluating the store on concrete inputs. The metadata
  objects are the two the HTTP test saves, \<open>{i: 1}\<close> and \<open>{i: 2}\<close>. The engine is the
  bareword fragment of FTS5 on ASCII text: the tokenizer splits at every character that is
  not a letter or a digit and folds case; a query that is a non-empty sequence of
  space-separated barewords other than the operators \<open>AND\<close>, \<open>OR\<close>, \<open>NOT\<close> is the
  conjunction of its terms, and every other text is rejected. FTS5 itself accepts more
  (quoted phrases, operators, column filters); the empty query and a text with an
  apostrophe or an unbalanced quote are rejected by FTS5 as they are here.
\<close>

datatype test_metadata = Meta_i1 | Meta_i2

fun test_stringify :: "test_metadata \<Rightarrow> string" where
  "test_stringify Meta_i1 = [CHR ''{'', CHR 0x22, CHR ''i'', CHR 0x22, CHR '':'', CHR ''1'', CHR ''}'']"
| "test_stringify Meta_i2 = [CHR ''{'', CHR 0x22, CHR ''i'', CHR 0x22, CHR '':'', CHR ''2'', CHR ''}'']"

definition test_parse :: "string \<Rightarrow> test_metadata" where
  "test_parse s = (if s = test_stringify Meta_i1 then Meta_i1 else Meta_i2)"

definition is_alnum :: "char \<Rightarrow> bool" where
  "is_alnum c =
     (c \<in> set ''abcdefghijklmnopqrstuvwxyzABCDEFGHIJKLMNOPQRSTUVWXYZ0123456789'')"

definition to_lower :: "char \<Rightarrow> char" where
  "to_lower c =
     (case map_of (zip ''ABCDEFGHIJKLMNOPQRSTUVWXYZ'' ''abcdefghijklmnopqrstuvwxyz'') c of
        None \<Rightarrow> c
      | Some l \<Rightarrow> l)"

fun split_on :: "(char \<Rightarrow> bool) \<Rightarrow> string \<Rightarrow> string \<Rightarrow> string list" where
  "split_on sep acc [] = (if acc = [] then [] else [acc])"
| "split_on sep acc (c # cs) =
     (if sep c then (if acc = [] then [] else [acc]) @ split_on sep [] cs
      else split_on sep (acc @ [c]) cs)"

definition ascii_tokenize :: "string \<Rightarrow> string list" where
  "ascii_tokenize s = map (map to_lower) (split_on (\<lambda>c. \<not> is_alnum c) [] s)"

definition bareword_query :: "string \<Rightarrow> string list option" where
  "bareword_query s =
     (let ws = split_on (\<lambda>c. c = CHR '' '') [] s in
      if ws \<noteq> [] \<and> list_all (\<lambda>w. list_all is_alnum w \<and> w \<notin> {''AND'', ''OR'', ''NOT''}) ws
      then Some (map (map to_lower) ws) else None)"

definition all_terms_match :: "string list \<Rightarrow> string list \<Rightarrow> bool" where
  "all_terms_match q ts = list_all (\<lambda>w. w \<in> set ts) q"

definition test_env :: "(test_metadata, string, string list, int) env" where
  "test_env =
     \<lparr>JSON_stringify = test_stringify, JSON_parse = test_parse,
      fts5_tokenize = ascii_tokenize, fts5_parse = bareword_query,
      fts5_match = all_terms_match, fts5_rank = (\<lambda>q ts. 0)\<rparr>"

section \<open>Example databases\<close>

definition example_mutations :: "test_metadata mutation list" where
  "example_mutations =
     [Create ''u1'' 1000 ''hello world'' ''A'' None,
      Create ''u2'' 1001 ''another entry'' ''A'' (Some Meta_i1),
      Create ''u3'' 1002 ''hello there'' ''B'' (Some Meta_i2)]"

definition example_db :: "string db" where
  "example_db = run test_env example_mutations"

definition example_mutations2 :: "test_metadata mutation list" where
  "example_mutations2 =
     example_mutations @
     [Update 1003 ''u1'' \<lparr>upd_content = Some ''updated content'', upd_metadata = None\<rparr>,
      Delete ''u2'']"

definition example_db2 :: "string db" where
  "example_db2 = run test_env example_mutations2"


definition plain_db :: "string db" where
  "plain_db = run test_env [Create ''u1'' 1000 ''hello world'' ''A'' None]"

section \<open>The invariant of the store\<close>


section \<open>Evaluating the examples\<close>

lemmas store_defs =
  run_def empty_db_def save_def update_def delete_def get_def rowToInsight_def Let_def
  next_rowid_def insights_ai_def insights_au_def insights_ad_def fts_insert_def
  fts_update_where_rowid_def fts_delete_where_rowid_def fts_delete_row_def fts_terms_def
  column_tokens_def

lemmas test_env_defs =
  test_env_def ascii_tokenize_def bareword_query_def all_terms_match_def is_alnum_def
  to_lower_def test_parse_def

lemma example_db_insights:
  "insights example_db =
     [\<lparr>rowid = 1, col_id = ''u1'', col_content = ''hello world'', col_context = ''A'',
       col_metadata = None, col_created_at = 1000, col_updated_at = 1000\<rparr>,
      \<lparr>rowid = 2, col_id = ''u2'', col_content = ''another entry'', col_context = ''A'',
       col_metadata = Some (test_stringify Meta_i1), col_created_at = 1001,
       col_updated_at = 1001\<rparr>,
      \<lparr>rowid = 3, col_id = ''u3'', col_content = ''hello there'', col_context = ''B'',
       col_metadata = Some (test_stringify Meta_i2), col_created_at = 1002,
       col_updated_at = 1002\<rparr>]"
  by (simp add: example_db_def example_mutations_def store_defs test_env_def)


lemma example_db2_insights:
  "insights example_db2 =
     [\<lparr>rowid = 1, col_id = ''u1'', col_content = ''updated content'', col_context = ''A'',
       col_metadata = None, col_created_at = 1000, col_updated_at = 1003\<rparr>,
      \<lparr>rowid = 3, col_id = ''u3'', col_content = ''hello there'', col_context = ''B'',
       col_metadata = Some (test_stringify Meta_i2), col_created_at = 1002,
       col_updated_at = 1002\<rparr>]"
  by (simp add: example_db2_def example_mutations2_def example_mutations_def store_defs
        test_env_defs)

lemma example_db2_fts:
  "insights_fts example_db2 (Suc 0) = [''hello'', ''world'', ''updated'', ''content'']"
  "insights_fts example_db2 2 = [''another'', ''entry'', ''i'', ''1'']"
  "insights_fts example_db2 3 = [''hello'', ''there'', ''i'', ''2'']"
  by (simp_all add: example_db2_def example_mutations2_def example_mutations_def store_defs
        test_env_defs)


lemma plain_db_eval:
  "insights plain_db =
     [\<lparr>rowid = 1, col_id = ''u1'', col_content = ''hello world'', col_context = ''A'',
       col_metadata = None, col_created_at = 1000, col_updated_at = 1000\<rparr>]"
  "fts_content_size plain_db = 2"
  "fts_metadata_size plain_db = 0"
  "fts_row_count plain_db = 1"
  by (simp_all add: plain_db_def store_defs test_env_defs)


lemma test_env_json:
  "JSON_parse test_env (JSON_stringify test_env m) = m \<and> JSON_stringify test_env m \<noteq> []"
  by (cases m) (simp_all add: test_env_def test_parse_def)

lemma sqlite_integer_numerals:
  "sqlite_integer 0 = Some 0"
  "sqlite_integer (- 1) = Some (- 1)"
  "sqlite_integer 1 = Some 1"
  "sqlite_integer 2 = Some 2"
  "sqlite_integer 10 = Some 10"
  "sqlite_integer 20 = Some 20"
  "sqlite_integer 10000000000000000000 = None"
  "sqlite_integer (3 / 2) = None"
proof -
  have "\<lfloor>- 1 :: real\<rfloor> = - 1" using floor_of_int [of "- 1", where ?'a = real] by simp
  then show "sqlite_integer (- 1) = Some (- 1)" by (simp add: sqlite_integer_def)
qed (simp_all add: sqlite_integer_def)

section \<open>Pages of \<open>list\<close> and \<open>search\<close>\<close>

lemma sqlite_integer_Some: "sqlite_integer x = Some i \<Longrightarrow> x = of_int i"
  by (auto simp: sqlite_integer_def split: if_splits)

lemma sqlite_integer_of_nat: "n < 2 ^ 63 \<Longrightarrow> sqlite_integer (real n) = Some (int n)"
proof -
  assume "n < 2 ^ 63"
  then have "real n < real (2 ^ 63)" by (simp only: of_nat_less_iff)
  moreover have "- (2 ^ 63) < real n"
    by (rule less_le_trans [of _ 0]) simp_all
  ultimately show ?thesis by (simp add: sqlite_integer_def)
qed

lemma window_zero: "window 0 n xs = []"
  by (simp add: window_def)

lemma window_beyond: "int (length xs) \<le> n \<Longrightarrow> window l n xs = []"
  by (simp add: window_def Let_def)

lemma window_all: "l < 0 \<Longrightarrow> n \<le> 0 \<Longrightarrow> window l n xs = xs"
  by (simp add: window_def)

lemma window_subset: "set (window l n xs) \<subseteq> set xs"
  by (auto simp: window_def Let_def dest: in_set_takeD in_set_dropD)

lemma window_page: "window (int L) (int n) xs = take L (drop n xs)"
  by (simp add: window_def)

lemma limit_offset_accepted:
  "sqlite_integer limit = Some l \<Longrightarrow> sqlite_integer offset = Some n \<Longrightarrow>
   limit_offset limit offset xs = Inr (window l n xs)"
  by (simp add: limit_offset_def)

lemma limit_offset_Inr:
  assumes "limit_offset limit offset xs = Inr ys"
  obtains l n where "sqlite_integer limit = Some l" and "sqlite_integer offset = Some n"
    and "ys = window l n xs"
  using assms by (auto simp: limit_offset_def split: option.splits)

lemma limit_offset_rejected:
  "sqlite_integer limit = None \<or> sqlite_integer offset = None \<Longrightarrow>
   limit_offset limit offset xs = Inl (SqliteError ''SQLITE_MISMATCH'')"
  by (auto simp: limit_offset_def split: option.splits)

lemma limit_offset_all: "limit_offset (- 1) 0 xs = Inr xs"
  by (simp add: limit_offset_def sqlite_integer_numerals window_all)

lemma length_order_by: "length (order_by_created_at_desc rs) = length rs"
  by (simp add: order_by_created_at_desc_def)

lemma set_order_by: "set (order_by_created_at_desc rs) = set rs"
  by (simp add: order_by_created_at_desc_def)

lemma where_context_empty_string: "where_context (Some []) rs = where_context None rs"
  by (simp add: where_context_def)

lemma where_context_Some:
  "A \<noteq> [] \<Longrightarrow> where_context (Some A) rs = filter (\<lambda>r. col_context r = A) rs"
  by (simp add: where_context_def)

text \<open>The page \<open>list\<close> returns once SQLite has taken the limit and the offset.\<close>

lemma list_accepted:
  assumes "sqlite_integer limit = Some l" and "sqlite_integer offset = Some n"
  shows "list e d ctx limit offset =
     Inr \<lparr>results = map (rowToInsight e)
                       (window l n (order_by_created_at_desc (where_context ctx (insights d)))),
          total = length (where_context ctx (insights d)),
          hasMore = (offset + real (length (window l n
                       (order_by_created_at_desc (where_context ctx (insights d)))))
                     < real (length (where_context ctx (insights d))))\<rparr>"
  by (simp add: list_def Let_def limit_offset_accepted [OF assms])

lemma list_rejected:
  "sqlite_integer limit = None \<or> sqlite_integer offset = None \<Longrightarrow>
   list e d ctx limit offset = Inl (SqliteError ''SQLITE_MISMATCH'')"
  by (simp add: list_def Let_def limit_offset_rejected)

lemma list_Inr:
  assumes "list e d ctx limit offset = Inr p"
  obtains l n where "sqlite_integer limit = Some l" and "sqlite_integer offset = Some n"
    and "results p = map (rowToInsight e)
                       (window l n (order_by_created_at_desc (where_context ctx (insights d))))"
    and "total p = length (where_context ctx (insights d))"
    and "hasMore p = (offset + real (length (results p)) < real (total p))"
proof (cases "sqlite_integer limit")
  case None
  then have "list e d ctx limit offset = Inl (SqliteError ''SQLITE_MISMATCH'')"
    by (simp add: list_rejected)
  with assms show thesis by simp
next
  case l: (Some l)
  show thesis
  proof (cases "sqlite_integer offset")
    case None
    then have "list e d ctx limit offset = Inl (SqliteError ''SQLITE_MISMATCH'')"
      by (simp add: list_rejected)
    with assms show thesis by simp
  next
    case n: (Some n)
    from assms list_accepted [OF l n, of e d ctx]
    have "p = \<lparr>results = map (rowToInsight e)
                       (window l n (order_by_created_at_desc (where_context ctx (insights d)))),
          total = length (where_context ctx (insights d)),
          hasMore = (offset + real (length (window l n
                       (order_by_created_at_desc (where_context ctx (insights d)))))
                     < real (length (where_context ctx (insights d))))\<rparr>"
      by simp
    then have "results p = map (rowToInsight e)
                       (window l n (order_by_created_at_desc (where_context ctx (insights d))))"
      "total p = length (where_context ctx (insights d))"
      "hasMore p = (offset + real (length (results p)) < real (total p))"
      by simp_all
    with l n show thesis by (rule that)
  qed
qed

lemma list_full:
  "list e d ctx (- 1) 0 =
     Inr \<lparr>results = map (rowToInsight e) (order_by_created_at_desc (where_context ctx (insights d))),
          total = length (where_context ctx (insights d)), hasMore = False\<rparr>"
  using list_accepted [of "- 1" "- 1" 0 0 e d ctx]
  by (simp add: sqlite_integer_numerals window_all length_order_by)

lemma list_empty_context: "list e d (Some []) limit offset = list e d None limit offset"
  by (simp add: list_def where_context_empty_string)

lemma search_empty_context: "search e d q (Some []) limit offset = search e d q None limit offset"
  by (simp add: search_def where_context_empty_string split: option.split)

lemma concat_pages:
  "0 < n \<Longrightarrow> concat (map (\<lambda>k. take n (drop (k * n) xs)) [0..<P]) = take (P * n) xs"
proof (induction P)
  case 0
  then show ?case by simp
next
  case (Suc P)
  have "take (P * n + n) xs = take (P * n) xs @ take n (drop (P * n) xs)"
    by (rule take_add)
  moreover have "Suc P * n = P * n + n" by simp
  ultimately have "take (Suc P * n) xs = take (P * n) xs @ take n (drop (P * n) xs)"
    by (simp only:)
  with Suc show ?case by (simp del: mult_Suc)
qed

lemma pages_cover: "0 < (L::nat) \<Longrightarrow> N \<le> max 1 ((N + L - 1) div L) * L"
proof -
  assume L: "0 < L"
  have "N + L - 1 < L + ((N + L - 1) div L) * L"
    using dividend_less_div_times [OF L] .
  then have "N \<le> ((N + L - 1) div L) * L" using L by arith
  also have "\<dots> \<le> max 1 ((N + L - 1) div L) * L" by simp
  finally show ?thesis .
qed

lemma last_page:
  assumes L: "0 < (L::nat)"
  shows "(Suc k * L < N) = (k + 1 < max 1 ((N + L - 1) div L))"
proof
  define P where "P = max 1 ((N + L - 1) div L)"
  assume "Suc k * L < N"
  also have "N \<le> P * L" unfolding P_def using pages_cover [OF L] .
  finally have "Suc k < P" by (simp only: mult_less_cancel2)
  then show "k + 1 < max 1 ((N + L - 1) div L)" by (simp add: P_def)
next
  assume P: "k + 1 < max 1 ((N + L - 1) div L)"
  show "Suc k * L < N"
  proof (rule ccontr)
    assume "\<not> Suc k * L < N"
    then have "N + L - 1 < (k + 2) * L" using L by simp
    then have "(N + L - 1) div L < k + 2" using L by (simp add: less_mult_imp_div_less)
    with P show False by simp
  qed
qed

lemma list_page:
  assumes "L < 2 ^ 63" and "n < 2 ^ 63"
  shows "list e d ctx (real L) (real n) =
     Inr \<lparr>results = map (rowToInsight e)
                       (take L (drop n (order_by_created_at_desc (where_context ctx (insights d))))),
          total = length (where_context ctx (insights d)),
          hasMore = (n + min (length (where_context ctx (insights d)) - n) L
                     < length (where_context ctx (insights d)))\<rparr>"
proof -
  have "(real n + real (min (length (where_context ctx (insights d)) - n) L)
           < real (length (where_context ctx (insights d)))) =
        (n + min (length (where_context ctx (insights d)) - n) L
           < length (where_context ctx (insights d)))"
    by (simp only: of_nat_add [symmetric] of_nat_less_iff)
  then show ?thesis
    using list_accepted [OF sqlite_integer_of_nat [OF assms(1)] sqlite_integer_of_nat [OF assms(2)],
            of e d ctx]
    by (simp add: window_page length_order_by)
qed

lemma hasMore_page: "(k * L + min (N - k * L) L < N) = (Suc k * L < (N::nat))"
  by (auto simp: min_def)

lemma created_at_rowToInsight [simp]: "created_at (rowToInsight e r) = col_created_at r"
  by (simp add: rowToInsight_def)

lemma context_rowToInsight [simp]: "insight_context (rowToInsight e r) = col_context r"
  by (simp add: rowToInsight_def)

lemma id_rowToInsight [simp]: "insight_id (rowToInsight e r) = col_id r"
  by (simp add: rowToInsight_def)

lemma content_rowToInsight [simp]: "content (rowToInsight e r) = col_content r"
  by (simp add: rowToInsight_def)

lemma list_newest_first:
  assumes "list e d ctx limit offset = Inr p"
  shows "sorted_wrt (\<lambda>a b. created_at b \<le> created_at a) (results p)"
proof -
  let ?rs = "order_by_created_at_desc (where_context ctx (insights d))"
  from assms obtain l n where res: "results p = map (rowToInsight e) (window l n ?rs)"
    by (rule list_Inr)
  have "sorted (map (\<lambda>r. - col_created_at r) ?rs)"
    by (simp add: order_by_created_at_desc_def)
  then have s: "sorted_wrt (\<lambda>a b. col_created_at b \<le> col_created_at a) ?rs"
    by (simp add: sorted_map)
  have "sorted_wrt (\<lambda>a b. col_created_at b \<le> col_created_at a) (window l n ?rs)"
    using s by (simp add: window_def Let_def sorted_wrt_take sorted_wrt_drop)
  then show ?thesis by (simp add: res sorted_wrt_map)
qed

lemma filter_context_results:
  "filter (\<lambda>r. insight_context r = A) (map (rowToInsight e) rs) =
     map (rowToInsight e) (filter (\<lambda>r. col_context r = A) rs)"
  by (simp add: filter_map comp_def)

lemma set_window_sort: "x \<in> set (window l n (sort_key f xs)) \<Longrightarrow> x \<in> set xs"
  using window_subset [of l n "sort_key f xs"] by auto

lemma search_accepted:
  assumes "fts5_parse e q = Some q'" and "sqlite_integer limit = Some l"
    and "sqlite_integer offset = Some n"
  shows "search e d q ctx limit offset =
     Inr \<lparr>results = map (rowToInsight e)
                       (window l n (sort_key (\<lambda>r. fts5_rank e q' (insights_fts d (rowid r)))
                                      (where_context ctx (fts_join e d q')))),
          total = length (where_context ctx (fts_join e d q')),
          hasMore = (offset + real (length (window l n
                       (sort_key (\<lambda>r. fts5_rank e q' (insights_fts d (rowid r)))
                          (where_context ctx (fts_join e d q')))))
                     < real (length (where_context ctx (fts_join e d q'))))\<rparr>"
  by (simp add: search_def Let_def assms(1) limit_offset_accepted [OF assms(2,3)])

lemma search_Inr:
  assumes "search e d q ctx limit offset = Inr p"
  obtains q' l n where "fts5_parse e q = Some q'"
    and "sqlite_integer limit = Some l" and "sqlite_integer offset = Some n"
    and "results p = map (rowToInsight e)
           (window l n (sort_key (\<lambda>r. fts5_rank e q' (insights_fts d (rowid r)))
                          (where_context ctx (fts_join e d q'))))"
    and "total p = length (where_context ctx (fts_join e d q'))"
    and "hasMore p = (offset + real (length (results p)) < real (total p))"
proof (cases "fts5_parse e q")
  case None
  with assms show thesis by (simp add: search_def)
next
  case q': (Some q')
  let ?rows = "sort_key (\<lambda>r. fts5_rank e q' (insights_fts d (rowid r)))
                 (where_context ctx (fts_join e d q'))"
  from assms q' obtain ys where lo: "limit_offset limit offset ?rows = Inr ys"
    by (cases "limit_offset limit offset ?rows") (simp_all add: search_def Let_def)
  then obtain l n where l: "sqlite_integer limit = Some l" and n: "sqlite_integer offset = Some n"
    by (rule limit_offset_Inr)
  from assms search_accepted [OF q' l n, of d ctx]
  have "p = \<lparr>results = map (rowToInsight e) (window l n ?rows),
          total = length (where_context ctx (fts_join e d q')),
          hasMore = (offset + real (length (window l n ?rows))
                     < real (length (where_context ctx (fts_join e d q'))))\<rparr>"
    by simp
  then have "results p = map (rowToInsight e) (window l n ?rows)"
    "total p = length (where_context ctx (fts_join e d q'))"
    "hasMore p = (offset + real (length (results p)) < real (total p))"
    by simp_all
  with q' l n show thesis by (rule that)
qed

lemma search_results_rows:
  assumes "search e d q ctx limit offset = Inr p" and "r \<in> set (results p)"
  obtains x q' where "fts5_parse e q = Some q'" and "x \<in> set (where_context ctx (fts_join e d q'))"
    and "r = rowToInsight e x"
proof -
  from assms(1) obtain q' l n where q': "fts5_parse e q = Some q'"
    and res: "results p = map (rowToInsight e)
           (window l n (sort_key (\<lambda>r. fts5_rank e q' (insights_fts d (rowid r)))
                          (where_context ctx (fts_join e d q'))))"
    by (rule search_Inr)
  from assms(2) res obtain x where
    "x \<in> set (window l n (sort_key (\<lambda>r. fts5_rank e q' (insights_fts d (rowid r)))
                          (where_context ctx (fts_join e d q'))))" and rx: "r = rowToInsight e x"
    by auto
  then have "x \<in> set (where_context ctx (fts_join e d q'))"
    by (simp add: set_window_sort)
  from q' this rx show thesis by (rule that)
qed

lemma list_results_rows:
  assumes "list e d ctx limit offset = Inr p" and "r \<in> set (results p)"
  obtains x where "x \<in> set (where_context ctx (insights d))" and "r = rowToInsight e x"
proof -
  from assms(1) obtain l n where
    "results p = map (rowToInsight e)
                   (window l n (order_by_created_at_desc (where_context ctx (insights d))))"
    by (rule list_Inr)
  with assms(2) obtain x where
    "x \<in> set (window l n (order_by_created_at_desc (where_context ctx (insights d))))"
    and rx: "r = rowToInsight e x"
    by auto
  then have "x \<in> set (where_context ctx (insights d))"
    unfolding order_by_created_at_desc_def by (simp add: set_window_sort)
  from this rx show thesis by (rule that)
qed

section \<open>The empty string as context\<close>

text \<open>
  Claim C10. For every limit and offset, \<open>list\<close> and \<open>search\<close> called with the empty
  string as context do what they do when the context is omitted, returning the same page or
  throwing the same error: the filter is added for a truthy context only. So the total of
  such a \<open>list\<close> call is the number of all rows, the call returns for every limit and
  offset that SQLite takes, and its unbounded page holds the records of every context.
\<close>

theorem empty_context_is_unfiltered:
  "list e d (Some []) limit offset = list e d None limit offset \<and>
   search e d q (Some []) limit offset = search e d q None limit offset \<and>
   (\<forall>p. list e d (Some []) limit offset = Inr p \<longrightarrow> total p = length (insights d)) \<and>
   (sqlite_integer limit \<noteq> None \<and> sqlite_integer offset \<noteq> None \<longrightarrow>
      (\<exists>p. list e d (Some []) limit offset = Inr p)) \<and>
   (\<exists>p. list e d (Some []) (- 1) 0 = Inr p \<and>
        set (results p) = rowToInsight e ` set (insights d))"
proof (intro conjI allI impI)
  show "list e d (Some []) limit offset = list e d None limit offset"
    by (rule list_empty_context)
  show "search e d q (Some []) limit offset = search e d q None limit offset"
    by (rule search_empty_context)
next
  fix p assume "list e d (Some []) limit offset = Inr p"
  then have "total p = length (where_context (Some []) (insights d))"
    by (rule list_Inr)
  then show "total p = length (insights d)" by (simp add: where_context_def)
next
  assume "sqlite_integer limit \<noteq> None \<and> sqlite_integer offset \<noteq> None"
  then obtain l n where "sqlite_integer limit = Some l" "sqlite_integer offset = Some n" by auto
  then show "\<exists>p. list e d (Some []) limit offset = Inr p"
    using list_accepted [of limit l offset n e d "Some []"] by simp
next
  show "\<exists>p. list e d (Some []) (- 1) 0 = Inr p \<and>
        set (results p) = rowToInsight e ` set (insights d)"
    by (simp add: list_full where_context_def set_order_by)
qed

text \<open>
  On the example database, whose three records are under the contexts \<open>A\<close> and \<open>B\<close>.
\<close>

theorem empty_context_is_unfiltered_witness:
  "list test_env example_db (Some []) 10 0 = list test_env example_db None 10 0 \<and>
   search test_env example_db ''hello'' (Some []) 10 0 = search test_env example_db ''hello'' None 10 0 \<and>
   sqlite_integer 10 \<noteq> None \<and> sqlite_integer 0 \<noteq> None \<and>
   (\<exists>p. list test_env example_db (Some []) 10 0 = Inr p \<and> total p = 3)"
proof -
  have n: "length (insights example_db) = 3" by (simp add: example_db_insights)
  have a: "sqlite_integer 10 \<noteq> None \<and> sqlite_integer 0 \<noteq> None"
    by (simp add: sqlite_integer_numerals)
  from empty_context_is_unfiltered [of test_env example_db 10 0 "''hello''"] n a show ?thesis
    by metis
qed

section \<open>The pagination contract of \<open>list\<close>\<close>

text \<open>
  Claim C6, as the code has it. For every context filter and for every limit and offset
  that SQLite takes (integers strictly between \<open>-2\<^sup>6\<^sup>3\<close> and \<open>2\<^sup>6\<^sup>3\<close>), \<open>list\<close> returns a page:
  its total is the number of rows that pass the filter, whatever the window; \<open>hasMore\<close> is
  \<open>offset + results.length < total\<close>; limit 0 gives an empty page; an offset at or beyond
  the total gives an empty page with \<open>hasMore\<close> false. For every other limit or offset
  \<open>list\<close> throws \<open>SQLITE_MISMATCH\<close>.
\<close>

theorem list_pagination_contract:
  "(\<forall>l n. sqlite_integer limit = Some l \<and> sqlite_integer offset = Some n \<longrightarrow>
      (\<exists>p. list e d ctx limit offset = Inr p \<and>
           total p =
             (if truthy ctx then length (filter (\<lambda>r. Some (col_context r) = ctx) (insights d))
              else length (insights d)) \<and>
           hasMore p = (offset + real (length (results p)) < real (total p)) \<and>
           (limit = 0 \<longrightarrow> results p = []) \<and>
           (real (total p) \<le> offset \<longrightarrow> results p = [] \<and> \<not> hasMore p))) \<and>
   (sqlite_integer limit = None \<or> sqlite_integer offset = None \<longrightarrow>
      list e d ctx limit offset = Inl (SqliteError ''SQLITE_MISMATCH''))"
proof (intro conjI allI impI)
  fix l n assume a: "sqlite_integer limit = Some l \<and> sqlite_integer offset = Some n"
  let ?rs = "order_by_created_at_desc (where_context ctx (insights d))"
  let ?p = "\<lparr>results = map (rowToInsight e) (window l n ?rs),
          total = length (where_context ctx (insights d)),
          hasMore = (offset + real (length (window l n ?rs))
                     < real (length (where_context ctx (insights d))))\<rparr>"
  from a have p: "list e d ctx limit offset = Inr ?p" by (simp add: list_accepted)
  from a have off: "offset = of_int n" by (simp add: sqlite_integer_Some)
  have 1: "total ?p =
             (if truthy ctx then length (filter (\<lambda>r. Some (col_context r) = ctx) (insights d))
              else length (insights d))"
    by (simp add: where_context_def)
  have 2: "hasMore ?p = (offset + real (length (results ?p)) < real (total ?p))" by simp
  have 3: "limit = 0 \<longrightarrow> results ?p = []"
  proof
    assume "limit = 0"
    with a have "l = 0" by (simp add: sqlite_integer_numerals)
    then show "results ?p = []" by (simp add: window_zero)
  qed
  have 4: "real (total ?p) \<le> offset \<longrightarrow> results ?p = [] \<and> \<not> hasMore ?p"
  proof
    assume "real (total ?p) \<le> offset"
    then have le: "real (length ?rs) \<le> of_int n" by (simp add: off length_order_by)
    then have "int (length ?rs) \<le> n" by linarith
    then have "window l n ?rs = []" by (rule window_beyond)
    with le show "results ?p = [] \<and> \<not> hasMore ?p" by (simp add: off length_order_by)
  qed
  from p 1 2 3 4 show "\<exists>p. list e d ctx limit offset = Inr p \<and>
           total p =
             (if truthy ctx then length (filter (\<lambda>r. Some (col_context r) = ctx) (insights d))
              else length (insights d)) \<and>
           hasMore p = (offset + real (length (results p)) < real (total p)) \<and>
           (limit = 0 \<longrightarrow> results p = []) \<and>
           (real (total p) \<le> offset \<longrightarrow> results p = [] \<and> \<not> hasMore p)"
    by blast
next
  assume "sqlite_integer limit = None \<or> sqlite_integer offset = None"
  then show "list e d ctx limit offset = Inl (SqliteError ''SQLITE_MISMATCH'')"
    by (rule list_rejected)
qed

lemma example_list_A:
  "list test_env example_db (Some ''A'') 10 2 = Inr \<lparr>results = [], total = 2, hasMore = False\<rparr>"
  using list_accepted [of 10 10 2 2 test_env example_db "Some ''A''"]
  by (simp add: sqlite_integer_numerals where_context_def order_by_created_at_desc_def window_def
        example_db_insights)

text \<open>
  On the example database: an offset at the total of context \<open>A\<close>, and a limit of one and a
  half.
\<close>

theorem list_pagination_contract_witness:
  "sqlite_integer 10 = Some 10 \<and> sqlite_integer 2 = Some 2 \<and>
   list test_env example_db (Some ''A'') 10 2 = Inr \<lparr>results = [], total = 2, hasMore = False\<rparr> \<and>
   sqlite_integer (3 / 2) = None \<and>
   list test_env example_db (Some ''A'') (3 / 2) 0 = Inl (SqliteError ''SQLITE_MISMATCH'')"
proof -
  have a: "sqlite_integer 10 = Some 10 \<and> sqlite_integer 2 = Some 2"
    by (simp add: sqlite_integer_numerals)
  have b: "sqlite_integer (3 / 2) = None" by (simp add: sqlite_integer_numerals)
  from a b example_list_A
    list_pagination_contract [of "3 / 2" 0 test_env example_db "Some ''A''"]
  show ?thesis by blast
qed

text \<open>
  The claim as the specification words it has the contract for every limit and offset. An
  offset of \<open>10\<^sup>1\<^sup>9\<close>, which is beyond every total, and a limit that is not an integer make
  \<open>list\<close> throw.
\<close>

theorem list_offset_beyond_int64:
  "list test_env example_db (Some ''A'') 10 10000000000000000000 =
     Inl (SqliteError ''SQLITE_MISMATCH'') \<and>
   list test_env example_db (Some ''A'') (3 / 2) 0 = Inl (SqliteError ''SQLITE_MISMATCH'')"
  by (simp add: list_rejected sqlite_integer_numerals)

section \<open>Order and pages of \<open>list\<close>\<close>

text \<open>
  Claim C7. \<open>list\<close> returns its records newest first (\<open>created_at\<close> descending). For a page
  size \<open>L \<ge> 1\<close> and \<open>N\<close> matching records, the pages at offsets \<open>0, L, 2L, \<dots>\<close>, up to the last
  of the \<open>max 1 \<lceil>N / L\<rceil>\<close> pages, are all returned and concatenate to the full ordered list,
  which holds each matching record once; \<open>hasMore\<close> is true on every page before the last
  and false on the last. The page size and the number of rows are below \<open>2\<^sup>6\<^sup>3\<close>, the bound
  of the integers of SQLite and so of the rowids of a table.
\<close>

theorem list_order_and_pages:
  assumes "0 < L" and "L < 2 ^ 63" and "length (insights d) < 2 ^ 63"
  shows "(\<forall>p limit offset. list e d ctx limit offset = Inr p \<longrightarrow>
            sorted_wrt (\<lambda>a b. created_at b \<le> created_at a) (results p)) \<and>
         (\<exists>full ps.
            list e d ctx (- 1) 0 = Inr full \<and>
            mset (results full) =
              mset (map (rowToInsight e)
                     (if truthy ctx then filter (\<lambda>r. Some (col_context r) = ctx) (insights d)
                      else insights d)) \<and>
            map (\<lambda>k. list e d ctx (real L) (real (k * L)))
              [0..<max 1 ((total full + L - 1) div L)] = map Inr ps \<and>
            concat (map results ps) = results full \<and>
            (\<forall>k < max 1 ((total full + L - 1) div L).
               hasMore (ps ! k) = (k + 1 < max 1 ((total full + L - 1) div L))))"
proof (intro conjI allI impI)
  fix p limit offset assume "list e d ctx limit offset = Inr p"
  then show "sorted_wrt (\<lambda>a b. created_at b \<le> created_at a) (results p)"
    by (rule list_newest_first)
next
  let ?m = "where_context ctx (insights d)"
  let ?rs = "order_by_created_at_desc ?m"
  let ?N = "length ?m"
  let ?P = "max 1 ((?N + L - 1) div L)"
  let ?full = "\<lparr>results = map (rowToInsight e) ?rs, total = ?N, hasMore = False\<rparr>"
  let ?page = "\<lambda>k. \<lparr>results = map (rowToInsight e) (take L (drop (k * L) ?rs)), total = ?N,
                      hasMore = (k * L + min (?N - k * L) L < ?N)\<rparr>"
  let ?ps = "map ?page [0..<?P]"
  have N: "?N < 2 ^ 63"
    using assms(3) by (rule le_less_trans [rotated]) (simp add: where_context_def)
  have full: "list e d ctx (- 1) 0 = Inr ?full" by (rule list_full)
  have ms: "mset (results ?full) =
              mset (map (rowToInsight e)
                     (if truthy ctx then filter (\<lambda>r. Some (col_context r) = ctx) (insights d)
                      else insights d))"
    by (simp add: order_by_created_at_desc_def where_context_def)
  have offs: "k * L < 2 ^ 63" if "k < ?P" for k
  proof (cases "k = 0")
    case True
    then show ?thesis by simp
  next
    case False
    with that have "k + 1 < ?P \<or> k + 1 = ?P" by arith
    with that False have "k * L < ?N"
      using last_page [OF assms(1), of "k - 1" ?N] pages_cover [OF assms(1), of ?N]
      by (cases k) auto
    with N show ?thesis by simp
  qed
  have pages: "map (\<lambda>k. list e d ctx (real L) (real (k * L))) [0..<?P] = map Inr ?ps"
  proof -
    have "list e d ctx (real L) (real (k * L)) = Inr (?page k)" if "k \<in> set [0..<?P]" for k
      using that list_page [OF assms(2) offs, of k e d ctx] by simp
    then show ?thesis by (simp add: comp_def del: of_nat_mult)
  qed
  have "concat (map results ?ps) =
          map (rowToInsight e) (concat (map (\<lambda>k. take L (drop (k * L) ?rs)) [0..<?P]))"
    by (simp add: map_concat comp_def)
  also have "\<dots> = map (rowToInsight e) (take (?P * L) ?rs)"
    using assms(1) by (simp add: concat_pages)
  also have "\<dots> = map (rowToInsight e) ?rs"
    using pages_cover [OF assms(1), of ?N] by (simp add: length_order_by)
  finally have cc: "concat (map results ?ps) = results ?full" by simp
  have hm: "\<forall>k < ?P. hasMore (?ps ! k) = (k + 1 < ?P)"
    using last_page [OF assms(1), of _ ?N] by (simp add: hasMore_page)
  from full ms pages cc hm
  show "\<exists>full ps.
            list e d ctx (- 1) 0 = Inr full \<and>
            mset (results full) =
              mset (map (rowToInsight e)
                     (if truthy ctx then filter (\<lambda>r. Some (col_context r) = ctx) (insights d)
                      else insights d)) \<and>
            map (\<lambda>k. list e d ctx (real L) (real (k * L)))
              [0..<max 1 ((total full + L - 1) div L)] = map Inr ps \<and>
            concat (map results ps) = results full \<and>
            (\<forall>k < max 1 ((total full + L - 1) div L).
               hasMore (ps ! k) = (k + 1 < max 1 ((total full + L - 1) div L)))"
    apply (rule_tac x = ?full in exI)
    apply (rule_tac x = ?ps in exI)
    apply simp
    done
qed

text \<open>
  On the example database, with pages of two records.
\<close>

theorem list_order_and_pages_witness:
  "(0::nat) < 2 \<and> (2::nat) < 2 ^ 63 \<and> length (insights example_db) < 2 ^ 63 \<and>
   (\<exists>full ps.
      list test_env example_db None (- 1) 0 = Inr full \<and>
      map (\<lambda>k. list test_env example_db None (real 2) (real (k * 2)))
        [0..<max 1 ((total full + 2 - 1) div 2)] = map Inr ps \<and>
      concat (map results ps) = results full)"
proof -
  have h: "(0::nat) < 2" "(2::nat) < 2 ^ 63" "length (insights example_db) < 2 ^ 63"
    by (simp_all add: example_db_insights)
  from h list_order_and_pages [OF h, of test_env None] show ?thesis
    by blast
qed

text \<open>
  The bound on the page size is the one of SQLite: with a limit of \<open>2\<^sup>6\<^sup>3\<close> or more
  \<open>list\<close> throws, whatever the table holds.
\<close>

lemma list_limit_beyond_int64:
  assumes "2 ^ 63 \<le> limit"
  shows "list e d ctx limit offset = Inl (SqliteError ''SQLITE_MISMATCH'')"
proof -
  from assms have "sqlite_integer limit = None" by (simp add: sqlite_integer_def)
  then show ?thesis by (simp add: list_rejected)
qed

section \<open>Context isolation\<close>

text \<open>
  Claim C9. For a non-empty context \<open>A\<close>, every record in a page that \<open>list\<close> or \<open>search\<close>
  returns under \<open>context = A\<close> has context \<open>A\<close>, so none was created under another context,
  and the returned total counts the \<open>A\<close> records only: for \<open>list\<close> the \<open>A\<close> records of the
  table, which are those of the unbounded unfiltered page; for \<open>search\<close> the \<open>A\<close> records
  among all matches of the query.
\<close>

theorem context_isolation:
  assumes "A \<noteq> []"
  shows "(\<forall>p. list e d (Some A) limit offset = Inr p \<longrightarrow>
            (\<forall>r \<in> set (results p). insight_context r = A) \<and>
            (\<exists>pall. list e d None (- 1) 0 = Inr pall \<and>
               total p = length (filter (\<lambda>r. insight_context r = A) (results pall)))) \<and>
         (\<forall>p pall. search e d q (Some A) limit offset = Inr p \<and>
                   search e d q None (- 1) 0 = Inr pall \<longrightarrow>
            (\<forall>r \<in> set (results p). insight_context r = A) \<and>
            total p = length (filter (\<lambda>r. insight_context r = A) (results pall)))"
proof (intro conjI allI impI ballI)
  fix p r assume "list e d (Some A) limit offset = Inr p" and "r \<in> set (results p)"
  then obtain x where "x \<in> set (where_context (Some A) (insights d))" "r = rowToInsight e x"
    by (rule list_results_rows)
  then show "insight_context r = A" using assms by (simp add: where_context_Some)
next
  fix p assume "list e d (Some A) limit offset = Inr p"
  then have t: "total p = length (where_context (Some A) (insights d))" by (rule list_Inr)
  have "filter (\<lambda>r. col_context r = A) (order_by_created_at_desc (insights d)) =
          order_by_created_at_desc (filter (\<lambda>r. col_context r = A) (insights d))"
    by (simp add: order_by_created_at_desc_def filter_sort)
  then have "total p = length (filter (\<lambda>r. insight_context r = A)
                 (map (rowToInsight e) (order_by_created_at_desc (insights d))))"
    using assms by (simp add: t filter_context_results where_context_Some length_order_by)
  then show "\<exists>pall. list e d None (- 1) 0 = Inr pall \<and>
               total p = length (filter (\<lambda>r. insight_context r = A) (results pall))"
    by (simp add: list_full where_context_def)
next
  fix p pall r
  assume h: "search e d q (Some A) limit offset = Inr p \<and> search e d q None (- 1) 0 = Inr pall"
    and r: "r \<in> set (results p)"
  from h have "search e d q (Some A) limit offset = Inr p" by simp
  from this r obtain x q' where "x \<in> set (where_context (Some A) (fts_join e d q'))"
    "r = rowToInsight e x"
    by (rule search_results_rows)
  then show "insight_context r = A" using assms by (simp add: where_context_Some)
next
  fix p pall
  assume h: "search e d q (Some A) limit offset = Inr p \<and> search e d q None (- 1) 0 = Inr pall"
  from h have "search e d q (Some A) limit offset = Inr p" by simp
  then obtain q' where q': "fts5_parse e q = Some q'"
    and p: "total p = length (where_context (Some A) (fts_join e d q'))"
    by (rule search_Inr)
  from h have "search e d q None (- 1) 0 = Inr pall" by simp
  with search_accepted [OF q', of "- 1" "- 1" 0 0 d None]
  have "results pall = map (rowToInsight e)
             (sort_key (\<lambda>r. fts5_rank e q' (insights_fts d (rowid r))) (fts_join e d q'))"
    by (simp add: sqlite_integer_numerals window_all where_context_def)
  then have "length (filter (\<lambda>r. insight_context r = A) (results pall)) =
               length (filter (\<lambda>r. col_context r = A) (fts_join e d q'))"
    by (simp add: filter_context_results filter_sort)
  with p assms show "total p = length (filter (\<lambda>r. insight_context r = A) (results pall))"
    by (simp add: where_context_Some)
qed

lemma example_list_A10:
  "list test_env example_db (Some ''A'') 10 0 =
     Inr \<lparr>results =
            [\<lparr>insight_id = ''u2'', content = ''another entry'', insight_context = ''A'',
              metadata = Some Meta_i1, created_at = 1001, updated_at = 1001\<rparr>,
             \<lparr>insight_id = ''u1'', content = ''hello world'', insight_context = ''A'',
              metadata = None, created_at = 1000, updated_at = 1000\<rparr>],
          total = 2, hasMore = False\<rparr>"
  using list_accepted [of 10 10 0 0 test_env example_db "Some ''A''"]
  by (simp add: sqlite_integer_numerals where_context_def order_by_created_at_desc_def window_def
        rowToInsight_def example_db_insights test_env_def test_parse_def)

text \<open>
  On the example database, whose context \<open>A\<close> holds two of the three records.
\<close>

theorem context_isolation_witness:
  "''A'' \<noteq> [] \<and>
   (\<exists>p. list test_env example_db (Some ''A'') 10 0 = Inr p \<and>
        list_all (\<lambda>r. insight_context r = ''A'') (results p) \<and>
        (\<exists>pall. list test_env example_db None (- 1) 0 = Inr pall \<and>
           total p = length (filter (\<lambda>r. insight_context r = ''A'') (results pall))))"
proof -
  have h: "''A'' \<noteq> []" by simp
  from context_isolation [OF h, of test_env example_db 10 0] example_list_A10 show ?thesis
    unfolding list_all_iff by blast
qed

section \<open>Rows after a mutation\<close>

lemma find_append_fresh:
  "\<forall>x \<in> set xs. \<not> P x \<Longrightarrow> P y \<Longrightarrow> find P (xs @ [y]) = Some y"
  by (induction xs) auto


lemma insights_fts_insert [simp]: "insights (fts_insert e r c m d) = insights d"
  by (simp add: fts_insert_def)

lemma insights_insights_ai [simp]: "insights (insights_ai e x d) = insights d"
  by (simp add: insights_ai_def)

lemma insights_fts_delete_row: "fts_delete_row e x d = Inr d' \<Longrightarrow> insights d' = insights d"
  by (auto simp: fts_delete_row_def Let_def split: if_splits)


lemma insights_insights_ad: "insights_ad e x d = Inr d' \<Longrightarrow> insights d' = insights d"
  by (auto simp: insights_ad_def fts_delete_where_rowid_def
        split: option.splits dest: insights_fts_delete_row)






section \<open>The invariant is kept\<close>





















section \<open>Create and get\<close>

text \<open>
  Claim C4. For every content, context and metadata, when \<open>save\<close> is given an id that is not
  in the table (a fresh UUID) it succeeds, and \<open>get\<close> of the returned id gives the record
  with that content, context and metadata and with \<open>created_at = updated_at\<close> equal to
  the time of creation. The metadata comes back through \<open>JSON.parse\<close> of what
  \<open>JSON.stringify\<close> wrote, which is the object itself for the JSON objects of the
  tool interface.
\<close>

theorem create_get_round_trip:
  assumes fresh: "uuid \<notin> set (map col_id (insights d))"
    and json: "\<forall>x. m = Some x \<longrightarrow> JSON_parse e (JSON_stringify e x) = x \<and> JSON_stringify e x \<noteq> []"
  shows "\<exists>d'. save e d uuid now c ctx m =
                Inr (\<lparr>insight_id = uuid, content = c, insight_context = ctx, metadata = m,
                      created_at = now, updated_at = now\<rparr>, d') \<and>
              get e d' uuid =
                Some \<lparr>insight_id = uuid, content = c, insight_context = ctx, metadata = m,
                      created_at = now, updated_at = now\<rparr>"
proof -
  let ?new = "\<lparr>rowid = next_rowid (insights d), col_id = uuid, col_content = c,
               col_context = ctx, col_metadata = map_option (JSON_stringify e) m,
               col_created_at = now, col_updated_at = now\<rparr>"
  let ?ins = "\<lparr>insight_id = uuid, content = c, insight_context = ctx, metadata = m,
               created_at = now, updated_at = now\<rparr>"
  let ?d' = "insights_ai e ?new (d\<lparr>insights := insights d @ [?new]\<rparr>)"
  have s: "save e d uuid now c ctx m = Inr (?ins, ?d')"
    using fresh by (simp add: save_def Let_def)
  have "\<forall>x \<in> set (insights d). \<not> col_id x = uuid" using fresh by auto
  then have f: "find (\<lambda>r. col_id r = uuid) (insights d @ [?new]) = Some ?new"
    by (rule find_append_fresh) simp
  have r: "rowToInsight e ?new = ?ins"
    using json by (cases m) (simp_all add: rowToInsight_def)
  have "get e ?d' uuid = Some ?ins"
    by (simp add: get_def f r)
  with s show ?thesis by blast
qed

text \<open>
  A fourth record saved into the example database.
\<close>

theorem create_get_round_trip_witness:
  "''u4'' \<notin> set (map col_id (insights example_db)) \<and>
   (\<exists>d'. save test_env example_db ''u4'' 2000 ''new note'' ''A'' (Some Meta_i2) =
            Inr (\<lparr>insight_id = ''u4'', content = ''new note'', insight_context = ''A'',
                  metadata = Some Meta_i2, created_at = 2000, updated_at = 2000\<rparr>, d') \<and>
          get test_env d' ''u4'' =
            Some \<lparr>insight_id = ''u4'', content = ''new note'', insight_context = ''A'',
                  metadata = Some Meta_i2, created_at = 2000, updated_at = 2000\<rparr>)"
proof -
  have fresh: "''u4'' \<notin> set (map col_id (insights example_db))"
    by (simp add: example_db_insights)
  have json: "\<forall>x. Some Meta_i2 = Some x \<longrightarrow>
      JSON_parse test_env (JSON_stringify test_env x) = x \<and> JSON_stringify test_env x \<noteq> []"
    by (simp add: test_env_json)
  from fresh create_get_round_trip [OF fresh json, of 2000 "''new note''" "''A''"]
  show ?thesis by blast
qed

section \<open>Partial update\<close>




section \<open>Search without a match and rejected queries\<close>





section \<open>The context in HTTP mode\<close>

text \<open>The sibling path: \<open>save-insight\<close> asks \<open>getContext\<close> whatever the context is.\<close>

lemma http_save_requires_context:
  "\<not> truthy ctx \<Longrightarrow>
   handler Http cwd (Save_insight c ctx m) =
     Inl (Error ''context parameter is required in HTTP mode'')"
  by (simp add: getContext_def)

lemma http_never_defaults:
  assumes "handler Http cwd t = Inr call"
  shows "call_context call = None \<or> (call_context call = tool_context t \<and> truthy (tool_context t))"
  using assms
  by (cases t; cases "tool_context t") (auto simp: getContext_def split: if_splits sum.splits)

lemma example_list_all:
  "list test_env example_db None 20 0 =
     Inr \<lparr>results =
            [\<lparr>insight_id = ''u3'', content = ''hello there'', insight_context = ''B'',
              metadata = Some Meta_i2, created_at = 1002, updated_at = 1002\<rparr>,
             \<lparr>insight_id = ''u2'', content = ''another entry'', insight_context = ''A'',
              metadata = Some Meta_i1, created_at = 1001, updated_at = 1001\<rparr>,
             \<lparr>insight_id = ''u1'', content = ''hello world'', insight_context = ''A'',
              metadata = None, created_at = 1000, updated_at = 1000\<rparr>],
          total = 3, hasMore = False\<rparr>"
  using list_accepted [of 20 20 0 0 test_env example_db None]
  by (simp add: sqlite_integer_numerals where_context_def order_by_created_at_desc_def window_def
        rowToInsight_def example_db_insights test_env_def test_parse_def)

text \<open>
  Claim C3, at the calls where the adapter departs from it. In HTTP mode \<open>list-insights\<close>
  and \<open>search-insights\<close> called without a context do not throw: they evaluate
  \<open>context ? getContext(context) : undefined\<close>, never reach the test of \<open>getContext\<close>,
  and call the store with an undefined context, so the caller receives the records of
  every context. \<open>save-insight\<close> on the same server throws \<open>context parameter is required
  in HTTP mode\<close>.
\<close>

theorem http_list_and_search_without_context:
  "handler Http ''/srv'' (List_insights None None None :: test_metadata tool_call) =
     Inr (Db_list None 20 0) \<and>
   handler Http ''/srv'' (Search_insights ''hello'' None None None :: test_metadata tool_call) =
     Inr (Db_search ''hello'' None 20 0) \<and>
   map_sum id fst
     (call_tool test_env Http ''/srv'' example_db ''u4'' 2000 (List_insights None None None)) =
     Inr (Out_page
       \<lparr>results =
            [\<lparr>insight_id = ''u3'', content = ''hello there'', insight_context = ''B'',
              metadata = Some Meta_i2, created_at = 1002, updated_at = 1002\<rparr>,
             \<lparr>insight_id = ''u2'', content = ''another entry'', insight_context = ''A'',
              metadata = Some Meta_i1, created_at = 1001, updated_at = 1001\<rparr>,
             \<lparr>insight_id = ''u1'', content = ''hello world'', insight_context = ''A'',
              metadata = None, created_at = 1000, updated_at = 1000\<rparr>],
          total = 3, hasMore = False\<rparr>) \<and>
   handler Http ''/srv'' (Save_insight ''hello'' None None :: test_metadata tool_call) =
     Inl (Error ''context parameter is required in HTTP mode'')"
  by (simp add: call_tool_def example_list_all getContext_def)

section \<open>The index after a sequence of mutations\<close>




text \<open>
  What the index holds beyond the current terms. The triggers change the index with a plain
  \<open>UPDATE\<close> and \<open>DELETE\<close>, which on an external-content table read the values to take out
  from the content table after the row has changed. So the terms of a replaced content stay
  indexed under the rowid, and a search for the replaced content returns the record; the
  terms of a deleted row stay indexed under its rowid; and an update whose values have more
  tokens than the index counts in a column throws and changes nothing, as the first
  metadata given to a record saved without any.
\<close>

lemma replaced_content_still_matches:
  "search test_env example_db2 ''hello world'' None 20 0 =
     Inr \<lparr>results = [\<lparr>insight_id = ''u1'', content = ''updated content'', insight_context = ''A'',
                       metadata = None, created_at = 1000, updated_at = 1003\<rparr>],
          total = 1, hasMore = False\<rparr>"
  using search_accepted [of test_env "''hello world''" "[''hello'', ''world'']" 20 20 0 0
          example_db2 None]
  by (simp add: sqlite_integer_numerals fts_join_def where_context_def window_def rowToInsight_def
        example_db2_insights example_db2_fts test_env_defs)

lemma deleted_row_stays_indexed:
  "get test_env example_db2 ''u2'' = None \<and> list_all (\<lambda>x. rowid x \<noteq> 2) (insights example_db2) \<and>
   insights_fts example_db2 2 = [''another'', ''entry'', ''i'', ''1'']"
  by (simp add: get_def example_db2_insights example_db2_fts)

lemma first_metadata_update_throws:
  "update test_env plain_db 1001 ''u1'' \<lparr>upd_content = None, upd_metadata = Some Meta_i1\<rparr> =
     Inl (SqliteError ''SQLITE_CORRUPT_VTAB'')"
  by (simp add: update_def get_def rowToInsight_def Let_def plain_db_eval
        insights_au_def fts_update_where_rowid_def fts_delete_row_def column_tokens_def)
     (simp add: test_env_defs)

end
